theory Spec2Isabelle
  imports Complex_Main
begin

section \<open>PollReader: a shallow embedding\<close>

text \<open>
  The development follows \<^verbatim>\<open>PollReader.py\<close>: the class \<^verbatim>\<open>PollReader\<close> with its
  dictionary of six parallel lists, the row parser \<^verbatim>\<open>build_data_dict\<close> and the three
  aggregates. File input is abstracted to the list of lines that \<^verbatim>\<open>readlines()\<close>
  returned. Python exceptions are values of type \<open>error\<close>.

  Conventions of the model.
  \<^item> A Python \<^verbatim>\<open>str\<close> is a \<open>string\<close>; a \<open>char\<close> stands for a code point below 256.
  \<^item> A Python \<^verbatim>\<open>int\<close> is an \<open>int\<close>.
  \<^item> A Python \<^verbatim>\<open>float\<close> is a \<open>pyfloat\<close>: an exact rational, one of the two
    infinities, or NaN. Arithmetic on the rationals is exact, so the rounding of
    binary64, overflow to infinity, underflow and the sign of zero are outside the model.
\<close>

subsection \<open>Exceptions and floats\<close>

datatype error = ValueError | IndexError | ZeroDivisionError

datatype pyfloat = Fin rat | PInf | NInf | NaN



text \<open>\<^verbatim>\<open>a > b\<close> on floats: false as soon as one side is NaN.\<close>

fun fgt :: "pyfloat \<Rightarrow> pyfloat \<Rightarrow> bool" where
  "fgt NaN _ = False"
| "fgt _ NaN = False"
| "fgt (Fin a) (Fin b) = (a > b)"
| "fgt PInf PInf = False"
| "fgt PInf _ = True"
| "fgt NInf _ = False"
| "fgt (Fin a) PInf = False"
| "fgt (Fin a) NInf = True"

text \<open>\<^verbatim>\<open>a + b\<close> on floats.\<close>

fun fadd :: "pyfloat \<Rightarrow> pyfloat \<Rightarrow> pyfloat" where
  "fadd NaN _ = NaN"
| "fadd _ NaN = NaN"
| "fadd (Fin a) (Fin b) = Fin (a + b)"
| "fadd PInf NInf = NaN"
| "fadd NInf PInf = NaN"
| "fadd PInf _ = PInf"
| "fadd NInf _ = NInf"
| "fadd (Fin a) PInf = PInf"
| "fadd (Fin a) NInf = NInf"

fun fneg :: "pyfloat \<Rightarrow> pyfloat" where
  "fneg (Fin a) = Fin (- a)"
| "fneg PInf = NInf"
| "fneg NInf = PInf"
| "fneg NaN = NaN"

text \<open>\<^verbatim>\<open>a - b\<close> on floats.\<close>

definition fsub :: "pyfloat \<Rightarrow> pyfloat \<Rightarrow> pyfloat" where
  "fsub a b = fadd a (fneg b)"

text \<open>
  \<^verbatim>\<open>a / d\<close> and \<^verbatim>\<open>a * d\<close> for a float \<open>a\<close> and a finite number \<open>d\<close> (the program
  only divides by \<^verbatim>\<open>100.0\<close> and by list lengths, and only multiplies by \<^verbatim>\<open>100\<close>).
  Division by zero raises.
\<close>

fun fdiv :: "pyfloat \<Rightarrow> rat \<Rightarrow> error + pyfloat" where
  "fdiv a d =
     (if d = 0 then Inl ZeroDivisionError
      else Inr (case a of
                  Fin q \<Rightarrow> Fin (q / d)
                | PInf \<Rightarrow> (if d > 0 then PInf else NInf)
                | NInf \<Rightarrow> (if d > 0 then NInf else PInf)
                | NaN \<Rightarrow> NaN))"


text \<open>\<^verbatim>\<open>sum(xs)\<close>: the running total starts at 0 and adds the items from the left.\<close>

definition py_sum :: "pyfloat list \<Rightarrow> pyfloat" where
  "py_sum xs = foldl fadd (Fin 0) xs"


subsection \<open>Strings\<close>

text \<open>The code points below 256 for which \<^verbatim>\<open>str.isspace()\<close> holds.\<close>

definition is_space :: "char \<Rightarrow> bool" where
  "is_space c \<longleftrightarrow>
     c \<in> set [CHR 0x09, CHR 0x0A, CHR 0x0B, CHR 0x0C, CHR 0x0D, CHR 0x1C, CHR 0x1D,
              CHR 0x1E, CHR 0x1F, CHR 0x20, CHR 0x85, CHR 0xA0]"

definition is_digit :: "char \<Rightarrow> bool" where
  "is_digit c \<longleftrightarrow> c \<in> set ''0123456789''"

definition digit_val :: "char \<Rightarrow> nat" where
  "digit_val c = of_char c - 48"

text \<open>\<^verbatim>\<open>s.strip()\<close>.\<close>

definition strip :: "string \<Rightarrow> string" where
  "strip s = rev (dropWhile is_space (rev (dropWhile is_space s)))"

text \<open>
  Splitting at every character that satisfies \<open>p\<close>; empty pieces are kept, so the
  result has one more piece than there are separators.
\<close>

fun split_by :: "(char \<Rightarrow> bool) \<Rightarrow> string \<Rightarrow> string list" where
  "split_by p [] = [[]]"
| "split_by p (c # cs) =
     (let r = split_by p cs in if p c then [] # r else (c # hd r) # tl r)"

text \<open>\<^verbatim>\<open>s.split(',')\<close>.\<close>

definition split_comma :: "string \<Rightarrow> string list" where
  "split_comma s = split_by (\<lambda>c. c = CHR '','') s"

text \<open>\<^verbatim>\<open>s.split()\<close>: runs of whitespace separate, and no empty piece is returned.\<close>

definition split_ws :: "string \<Rightarrow> string list" where
  "split_ws s = filter (\<lambda>t. t \<noteq> []) (split_by is_space s)"

text \<open>\<^verbatim>\<open>s.lower()\<close> on code points below 256.\<close>

definition lower_char :: "char \<Rightarrow> char" where
  "lower_char c =
     (let n = of_char c :: nat
      in if (65 \<le> n \<and> n \<le> 90) \<or> (192 \<le> n \<and> n \<le> 222 \<and> n \<noteq> 215)
         then char_of (n + 32) else c)"

definition lower :: "string \<Rightarrow> string" where
  "lower s = map lower_char s"

subsection \<open>The built-in conversions \<^verbatim>\<open>int\<close> and \<^verbatim>\<open>float\<close>\<close>

definition dec_val :: "string \<Rightarrow> nat" where
  "dec_val ds = foldl (\<lambda>a c. 10 * a + digit_val c) 0 ds"

text \<open>
  A digit part is a non-empty run of digits in which single underscores may stand
  between two digits. The result is the string of its digits.
\<close>

definition digitpart :: "string \<Rightarrow> string option" where
  "digitpart s =
     (let gs = split_by (\<lambda>c. c = CHR ''_'') s
      in if list_all (\<lambda>g. g \<noteq> [] \<and> list_all is_digit g) gs then Some (concat gs) else None)"

text \<open>An optional sign in front of the rest of a literal.\<close>

fun take_sign :: "string \<Rightarrow> bool \<times> string" where
  "take_sign [] = (False, [])"
| "take_sign (c # cs) =
     (if c = CHR ''-'' then (True, cs) else if c = CHR ''+'' then (False, cs) else (False, c # cs))"

text \<open>
  \<^verbatim>\<open>int(s)\<close> for a string: surrounding whitespace, an optional sign, a digit part.
  \<open>None\<close> stands for the \<^verbatim>\<open>ValueError\<close> of a string that is no integer literal.
  (An interpreter may also refuse literals of several thousand digits; the model has
  no such limit.)
\<close>

definition py_int :: "string \<Rightarrow> int option" where
  "py_int s =
     (case take_sign (strip s) of (neg, body) \<Rightarrow>
        (case digitpart body of
           None \<Rightarrow> None
         | Some ds \<Rightarrow> Some (if neg then - int (dec_val ds) else int (dec_val ds))))"

text \<open>The mantissa of a float literal: \<^verbatim>\<open>12\<close>, \<^verbatim>\<open>12.\<close>, \<^verbatim>\<open>12.5\<close> or \<^verbatim>\<open>.5\<close>.\<close>

definition number :: "string \<Rightarrow> rat option" where
  "number m =
     (let ip = takeWhile (\<lambda>c. c \<noteq> CHR ''.'') m;
          rest = dropWhile (\<lambda>c. c \<noteq> CHR ''.'') m
      in if rest = [] then map_option (\<lambda>ds. of_nat (dec_val ds)) (digitpart ip)
         else let fp = tl rest
              in if ip = [] \<and> fp = [] then None
                 else case (if ip = [] then Some [] else digitpart ip) of
                        None \<Rightarrow> None
                      | Some ids \<Rightarrow>
                          (case (if fp = [] then Some [] else digitpart fp) of
                             None \<Rightarrow> None
                           | Some fds \<Rightarrow>
                               Some (of_nat (dec_val ids)
                                     + of_nat (dec_val fds) / 10 ^ length fds)))"

text \<open>The exponent of a float literal, after the letter: an optional sign and a digit part.\<close>

definition exponent :: "string \<Rightarrow> int option" where
  "exponent s =
     (case take_sign s of (neg, body) \<Rightarrow>
        map_option (\<lambda>ds. if neg then - int (dec_val ds) else int (dec_val ds)) (digitpart body))"

definition is_e :: "char \<Rightarrow> bool" where
  "is_e c \<longleftrightarrow> c = CHR ''e'' \<or> c = CHR ''E''"

definition floatnumber :: "string \<Rightarrow> rat option" where
  "floatnumber body =
     (let m = takeWhile (\<lambda>c. \<not> is_e c) body;
          rest = dropWhile (\<lambda>c. \<not> is_e c) body
      in case number m of
           None \<Rightarrow> None
         | Some q \<Rightarrow>
             if rest = [] then Some q
             else (case exponent (tl rest) of
                     None \<Rightarrow> None
                   | Some e \<Rightarrow> Some (if 0 \<le> e then q * 10 ^ nat e else q / 10 ^ nat (- e))))"

text \<open>
  \<^verbatim>\<open>float(s)\<close> for a string: surrounding whitespace, an optional sign, then
  \<^verbatim>\<open>inf\<close>, \<^verbatim>\<open>infinity\<close> or \<^verbatim>\<open>nan\<close> in any case, or a decimal literal with an optional
  exponent. \<open>None\<close> stands for the \<^verbatim>\<open>ValueError\<close>.
\<close>

definition py_float :: "string \<Rightarrow> pyfloat option" where
  "py_float s =
     (case take_sign (strip s) of (neg, body) \<Rightarrow>
        if lower body = ''inf'' \<or> lower body = ''infinity'' then Some (if neg then NInf else PInf)
        else if lower body = ''nan'' then Some NaN
        else map_option (\<lambda>q. Fin (if neg then - q else q)) (floatnumber body))"

subsection \<open>Formatting with \<^verbatim>\<open>:.1f\<close>\<close>

fun show_nat :: "nat \<Rightarrow> string" where
  "show_nat n =
     (if n < 10 then [char_of (48 + n)] else show_nat (n div 10) @ [char_of (48 + n mod 10)])"



subsection \<open>The class \<^verbatim>\<open>PollReader\<close>\<close>

text \<open>The dictionary \<^verbatim>\<open>data_dict\<close>: six lists under six fixed keys.\<close>

record store =
  month :: "string list"
  date :: "int list"
  sample :: "int list"
  sample_type :: "string list"
  Harris_result :: "pyfloat list"
  Trump_result :: "pyfloat list"

record poll_reader =
  raw_data :: "string list"
  data_dict :: store

definition empty_store :: store where
  "empty_store =
     \<lparr>month = [], date = [], sample = [], sample_type = [], Harris_result = [], Trump_result = []\<rparr>"

text \<open>
  \<^verbatim>\<open>__init__\<close>: the lines of the file become \<^verbatim>\<open>raw_data\<close> and the dictionary starts
  with six empty lists.
\<close>

definition init :: "string list \<Rightarrow> poll_reader" where
  "init lines = \<lparr>raw_data = lines, data_dict = empty_store\<rparr>"

text \<open>\<^verbatim>\<open>_to_fraction\<close>.\<close>

definition to_fraction :: "string \<Rightarrow> error + pyfloat" where
  "to_fraction val_str =
     (case py_float val_str of
        None \<Rightarrow> Inl ValueError
      | Some v \<Rightarrow> if fgt v (Fin 1) then fdiv v 100 else Inr v)"

text \<open>\<^verbatim>\<open>xs[i]\<close> for an index that is not negative.\<close>

definition py_index :: "'a list \<Rightarrow> nat \<Rightarrow> error + 'a" where
  "py_index xs i = (if i < length xs then Inr (xs ! i) else Inl IndexError)"

text \<open>
  The body of the loop of \<^verbatim>\<open>build_data_dict\<close> for one data row. The appends happen
  in the order of the source, so an exception leaves the lists appended so far in the
  dictionary; the result is the dictionary and the exception raised, if any. After the
  length check \<open>separated\<close> has at least five items, so its items 0 to 4 exist; the
  first item of \<open>sample_parts\<close> may not.
\<close>

definition process_row :: "store \<Rightarrow> string \<Rightarrow> store \<times> error option" where
  "process_row d row =
     (let separated = map strip (split_comma (strip row))
      in if length separated < 5 then (d, None)
         else
           let d = d\<lparr>month := month d @ [separated ! 0]\<rparr>
           in (case py_int (separated ! 1) of
                 None \<Rightarrow> (d, Some ValueError)
               | Some day \<Rightarrow>
                   (let d = d\<lparr>date := date d @ [day]\<rparr>;
                        sample_parts = split_ws (separated ! 2)
                    in (case (if length sample_parts = 2
                              then (case py_index sample_parts 0 of
                                      Inl e \<Rightarrow> Inl e
                                    | Inr p0 \<Rightarrow>
                                        (case py_int p0 of
                                           None \<Rightarrow> Inl ValueError
                                         | Some sample_size \<Rightarrow>
                                             Inr (sample_size,
                                                  if sample_parts ! 1 \<in> set [''LV'', ''RV'']
                                                  then sample_parts ! 1 else ''Unknown'')))
                              else (case py_index sample_parts 0 of
                                      Inl e \<Rightarrow> Inl e
                                    | Inr p0 \<Rightarrow>
                                        (case py_int p0 of
                                           None \<Rightarrow> Inl ValueError
                                         | Some sample_size \<Rightarrow> Inr (sample_size, ''Unknown''))))
                        of
                          Inl e \<Rightarrow> (d, Some e)
                        | Inr (sample_size, sample_type') \<Rightarrow>
                            (let d = d\<lparr>sample := sample d @ [sample_size]\<rparr>;
                                 d = d\<lparr>sample_type := sample_type d @
                                        [if sample_type' = ''LV'' then ''likely voters''
                                         else ''registered voters'']\<rparr>
                             in (case to_fraction (separated ! 3) of
                                   Inl e \<Rightarrow> (d, Some e)
                                 | Inr h \<Rightarrow>
                                     (let d = d\<lparr>Harris_result := Harris_result d @ [h]\<rparr>
                                      in (case to_fraction (separated ! 4) of
                                            Inl e \<Rightarrow> (d, Some e)
                                          | Inr t \<Rightarrow>
                                              (d\<lparr>Trump_result := Trump_result d @ [t]\<rparr>,
                                               None)))))))))"

text \<open>
  The loop \<^verbatim>\<open>for idx, row in enumerate(self.raw_data)\<close>: the row at index 0 is
  skipped, and an exception ends the loop.
\<close>

fun build_loop :: "nat \<Rightarrow> string list \<Rightarrow> store \<Rightarrow> store \<times> error option" where
  "build_loop idx [] d = (d, None)"
| "build_loop idx (row # rows) d =
     (if idx = 0 then build_loop (Suc idx) rows d
      else case process_row d row of
             (d', Some e) \<Rightarrow> (d', Some e)
           | (d', None) \<Rightarrow> build_loop (Suc idx) rows d')"

text \<open>\<^verbatim>\<open>build_data_dict\<close>: the object after the call and the exception raised, if any.\<close>

definition build_data_dict :: "poll_reader \<Rightarrow> poll_reader \<times> error option" where
  "build_data_dict self =
     (case build_loop 0 (raw_data self) (data_dict self) of
        (d, r) \<Rightarrow> (self\<lparr>data_dict := d\<rparr>, r))"





text \<open>
  The slices \<^verbatim>\<open>xs[:i]\<close> and \<^verbatim>\<open>xs[i:]\<close>: a negative bound counts from the end, and
  a bound outside the list is clipped to it.
\<close>

definition slice_bound :: "'a list \<Rightarrow> int \<Rightarrow> nat" where
  "slice_bound xs i =
     (let l = int (length xs) in nat (if i < 0 then max (l + i) 0 else min i l))"

definition slice_to :: "'a list \<Rightarrow> int \<Rightarrow> 'a list" where
  "slice_to xs i = take (slice_bound xs i) xs"

definition slice_from :: "'a list \<Rightarrow> int \<Rightarrow> 'a list" where
  "slice_from xs i = drop (slice_bound xs i) xs"

text \<open>
  \<^verbatim>\<open>polling_history_change\<close>, with the block that computes \<open>n\<close> and the four
  averages written twice, as in the source.
\<close>

definition polling_history_change :: "poll_reader \<Rightarrow> error + (pyfloat \<times> pyfloat)" where
  "polling_history_change self =
     (let harris = Harris_result (data_dict self);
          trump = Trump_result (data_dict self);
          n = min 30 (min (int (length harris)) (int (length trump)))
      in if n = 0 then Inr (Fin 0, Fin 0)
         else
           (case fdiv (py_sum (slice_to harris n)) (of_int n) of Inl e \<Rightarrow> Inl e | Inr harris_early_avg \<Rightarrow>
           (case fdiv (py_sum (slice_to trump n)) (of_int n) of Inl e \<Rightarrow> Inl e | Inr trump_early_avg \<Rightarrow>
           (case fdiv (py_sum (slice_from harris (- n))) (of_int n) of Inl e \<Rightarrow> Inl e | Inr harris_late_avg \<Rightarrow>
           (case fdiv (py_sum (slice_from trump (- n))) (of_int n) of Inl e \<Rightarrow> Inl e | Inr trump_late_avg \<Rightarrow>
           let harris = Harris_result (data_dict self);
               trump = Trump_result (data_dict self);
               n = min 30 (min (int (length harris)) (int (length trump)))
           in if n = 0 then Inr (Fin 0, Fin 0)
              else
                (case fdiv (py_sum (slice_to harris n)) (of_int n) of Inl e \<Rightarrow> Inl e | Inr harris_early_avg \<Rightarrow>
                (case fdiv (py_sum (slice_to trump n)) (of_int n) of Inl e \<Rightarrow> Inl e | Inr trump_early_avg \<Rightarrow>
                (case fdiv (py_sum (slice_from harris (- n))) (of_int n) of Inl e \<Rightarrow> Inl e | Inr harris_late_avg \<Rightarrow>
                (case fdiv (py_sum (slice_from trump (- n))) (of_int n) of Inl e \<Rightarrow> Inl e | Inr trump_late_avg \<Rightarrow>
                let harris_change = fsub harris_early_avg harris_late_avg;
                    trump_change = fsub trump_early_avg trump_late_avg
                in Inr (harris_change, trump_change))))))))))"


text \<open>
  The version of \<^verbatim>\<open>polling_history_change\<close> that computes \<open>n\<close> and the four averages
  once; it is what the duplicated code is compared with.
\<close>

definition polling_history_change_once :: "poll_reader \<Rightarrow> error + (pyfloat \<times> pyfloat)" where
  "polling_history_change_once self =
     (let harris = Harris_result (data_dict self);
          trump = Trump_result (data_dict self);
          n = min 30 (min (int (length harris)) (int (length trump)))
      in if n = 0 then Inr (Fin 0, Fin 0)
         else
           (case fdiv (py_sum (slice_to harris n)) (of_int n) of Inl e \<Rightarrow> Inl e | Inr harris_early_avg \<Rightarrow>
           (case fdiv (py_sum (slice_to trump n)) (of_int n) of Inl e \<Rightarrow> Inl e | Inr trump_early_avg \<Rightarrow>
           (case fdiv (py_sum (slice_from harris (- n))) (of_int n) of Inl e \<Rightarrow> Inl e | Inr harris_late_avg \<Rightarrow>
           (case fdiv (py_sum (slice_from trump (- n))) (of_int n) of Inl e \<Rightarrow> Inl e | Inr trump_late_avg \<Rightarrow>
           let harris_change = fsub harris_early_avg harris_late_avg;
               trump_change = fsub trump_early_avg trump_late_avg
           in Inr (harris_change, trump_change))))))"

subsection \<open>Notions used in the statements\<close>

text \<open>The trimmed comma-separated fields of a row.\<close>

definition row_fields :: "string \<Rightarrow> string list" where
  "row_fields row = map strip (split_comma (strip row))"

text \<open>The rows after the header that pass the field-count check, in input order.\<close>

definition data_rows :: "string list \<Rightarrow> string list" where
  "data_rows raw = filter (\<lambda>row. \<not> length (row_fields row) < 5) (tl raw)"

text \<open>The whitespace-separated tokens of the sample descriptor of a row.\<close>

definition sample_tokens :: "string \<Rightarrow> string list" where
  "sample_tokens row = split_ws (row_fields row ! 2)"

text \<open>A row whose two integers and two floats all parse.\<close>

definition row_parses :: "string \<Rightarrow> bool" where
  "row_parses row \<longleftrightarrow>
     py_int (row_fields row ! 1) \<noteq> None \<and> sample_tokens row \<noteq> []
     \<and> py_int (hd (sample_tokens row)) \<noteq> None
     \<and> py_float (row_fields row ! 3) \<noteq> None \<and> py_float (row_fields row ! 4) \<noteq> None"

text \<open>The six values that such a row contributes.\<close>

definition row_date :: "string \<Rightarrow> int" where
  "row_date row = the (py_int (row_fields row ! 1))"

definition row_sample :: "string \<Rightarrow> int" where
  "row_sample row = the (py_int (hd (sample_tokens row)))"

definition row_type :: "string \<Rightarrow> string" where
  "row_type row =
     (if length (sample_tokens row) = 2 \<and> sample_tokens row ! 1 = ''LV''
      then ''likely voters'' else ''registered voters'')"

text \<open>The normalisation of \<^verbatim>\<open>_to_fraction\<close> on a parsed value.\<close>

definition normalise :: "pyfloat \<Rightarrow> pyfloat" where
  "normalise v =
     (if fgt v (Fin 1)
      then (case v of Fin q \<Rightarrow> Fin (q / 100) | PInf \<Rightarrow> PInf | NInf \<Rightarrow> NInf | NaN \<Rightarrow> NaN)
      else v)"

definition row_harris :: "string \<Rightarrow> pyfloat" where
  "row_harris row = normalise (the (py_float (row_fields row ! 3)))"

definition row_trump :: "string \<Rightarrow> pyfloat" where
  "row_trump row = normalise (the (py_float (row_fields row ! 4)))"

definition append_row :: "store \<Rightarrow> string \<Rightarrow> store" where
  "append_row d row =
     \<lparr>month = month d @ [row_fields row ! 0], date = date d @ [row_date row],
      sample = sample d @ [row_sample row], sample_type = sample_type d @ [row_type row],
      Harris_result = Harris_result d @ [row_harris row],
      Trump_result = Trump_result d @ [row_trump row]\<rparr>"






text \<open>The data set of the end-to-end scenario: a header and three rows.\<close>

definition scenario :: "string list" where
  "scenario =
     [''month,date,sample,Harris result,Trump result'',
      ''Oct,1,1000 LV,55,45'',
      ''Oct,2,1000 RV,50,50'',
      ''Oct,3,900 XX,57.0,52'']"

definition scenario_store :: store where
  "scenario_store =
     \<lparr>month = [''Oct'', ''Oct'', ''Oct''], date = [1, 2, 3], sample = [1000, 1000, 900],
      sample_type = [''likely voters'', ''registered voters'', ''registered voters''],
      Harris_result = [Fin (11 / 20), Fin (1 / 2), Fin (57 / 100)],
      Trump_result = [Fin (9 / 20), Fin (1 / 2), Fin (13 / 25)]\<rparr>"


text \<open>
  The exception of a row that passes the field-count check and does not parse: the
  date is converted first, then the first token of the descriptor is taken (an
  \<^verbatim>\<open>IndexError\<close> when there is none) and converted, then the two results.
\<close>

definition row_error :: "string \<Rightarrow> error" where
  "row_error row =
     (if py_int (row_fields row ! 1) \<noteq> None \<and> sample_tokens row = [] then IndexError
      else ValueError)"

text \<open>The rows of a list that pass the field-count check.\<close>

definition passing :: "string list \<Rightarrow> string list" where
  "passing rows = filter (\<lambda>row. \<not> length (row_fields row) < 5) rows"

text \<open>
  A build from the lines of a file: the dictionary after \<^verbatim>\<open>build_data_dict\<close> on a
  fresh object, and the exception raised, if any.
\<close>

definition build_from :: "string list \<Rightarrow> store \<times> error option" where
  "build_from raw =
     (case build_data_dict (init raw) of (self, r) \<Rightarrow> (data_dict self, r))"

definition scenario_built :: poll_reader where
  "scenario_built = \<lparr>raw_data = scenario, data_dict = scenario_store\<rparr>"

section \<open>Properties\<close>

subsection \<open>Fraction normalisation\<close>





subsection \<open>The duplicated block of \<^verbatim>\<open>polling_history_change\<close>\<close>

text \<open>
  Claim C10. On every object, \<^verbatim>\<open>polling_history_change\<close> with its block written
  twice returns what the version with the block written once returns, be it a pair or
  an exception.
\<close>

theorem polling_history_change_duplicate_block:
  "polling_history_change self = polling_history_change_once self"
  unfolding polling_history_change_def polling_history_change_once_def Let_def
  by (simp split: sum.splits)

subsection \<open>The end-to-end scenario\<close>

text \<open>
  Claim C1, evaluated. On the scenario the build succeeds, and the third row, whose
  second descriptor token is \<^verbatim>\<open>XX\<close>, is stored with the sample type
  \<^verbatim>\<open>registered voters\<close>: the intermediate value \<^verbatim>\<open>Unknown\<close> is not \<^verbatim>\<open>LV\<close>, and the
  stored label is chosen between two labels only. The same happens to a row whose
  descriptor has a single token.
\<close>

theorem unknown_sample_type_stored_as_registered:
  "snd (build_data_dict (init scenario)) = None
   \<and> sample_type (data_dict (fst (build_data_dict (init scenario))))
       = [''likely voters'', ''registered voters'', ''registered voters'']
   \<and> build_from [''h'', ''Oct,3,900,57.0,52'']
       = (\<lparr>month = [''Oct''], date = [3], sample = [900],
           sample_type = [''registered voters''],
           Harris_result = [Fin (57 / 100)], Trump_result = [Fin (13 / 25)]\<rparr>, None)"
  by code_simp

subsection \<open>What a successful build stores\<close>

lemma to_fraction_normalise:
  "to_fraction s = (case py_float s of None \<Rightarrow> Inl ValueError | Some v \<Rightarrow> Inr (normalise v))"
  by (simp add: to_fraction_def normalise_def split: option.splits pyfloat.splits)

lemma process_row_skip:
  "length (row_fields row) < 5 \<Longrightarrow> process_row d row = (d, None)"
  by (simp add: process_row_def row_fields_def)

lemma process_row_ok:
  assumes "\<not> length (row_fields row) < 5" and "row_parses row"
  shows "process_row d row = (append_row d row, None)"
proof -
  from assms(2) obtain day sz h t p0 ps where
    "py_int (row_fields row ! 1) = Some day" "sample_tokens row = p0 # ps" "py_int p0 = Some sz"
    "py_float (row_fields row ! 3) = Some h" "py_float (row_fields row ! 4) = Some t"
    unfolding row_parses_def by (cases "sample_tokens row") auto
  with assms(1) show ?thesis
    unfolding process_row_def append_row_def row_date_def row_sample_def row_type_def
      row_harris_def row_trump_def
    by (auto simp add: to_fraction_normalise row_fields_def sample_tokens_def Let_def
        py_index_def)
qed

lemma process_row_fail:
  assumes "\<not> length (row_fields row) < 5" and "\<not> row_parses row"
  shows "snd (process_row d row) = Some (row_error row)"
proof (cases "sample_tokens row")
  case Nil
  with assms show ?thesis
    unfolding process_row_def row_parses_def row_error_def
    by (auto simp add: to_fraction_normalise row_fields_def sample_tokens_def Let_def
        py_index_def split: option.splits)
next
  case (Cons p0 ps)
  with assms show ?thesis
    unfolding process_row_def row_parses_def row_error_def
    by (auto simp add: to_fraction_normalise row_fields_def sample_tokens_def Let_def
        py_index_def split: option.splits)
qed

lemma build_loop_index: "build_loop (Suc k) rows d = build_loop (Suc 0) rows d"
proof (induction rows arbitrary: k d)
  case Nil
  show ?case by simp
next
  case (Cons row rows)
  have "build_loop (Suc (Suc k)) rows d' = build_loop (Suc (Suc 0)) rows d'" for d'
    using Cons.IH [of "Suc k" d'] Cons.IH [of "Suc 0" d'] by simp
  then show ?case by (simp split: prod.splits option.splits)
qed

lemma build_loop_header: "build_loop 0 raw d = build_loop (Suc 0) (tl raw) d"
  by (cases raw) simp_all

lemma build_loop_append:
  "build_loop (Suc 0) (pre @ rows) d =
     (case build_loop (Suc 0) pre d of
        (d1, None) \<Rightarrow> build_loop (Suc 0) rows d1
      | (d1, Some e) \<Rightarrow> (d1, Some e))"
proof (induction pre arbitrary: d)
  case Nil
  show ?case by simp
next
  case (Cons row pre)
  show ?case
  proof (cases "process_row d row")
    case (Pair d1 r)
    show ?thesis
    proof (cases r)
      case None
      with Pair Cons.IH [of d1] show ?thesis
        by (simp add: build_loop_index [of "Suc 0"])
    next
      case (Some e)
      with Pair show ?thesis by simp
    qed
  qed
qed

lemma build_loop_ok:
  "build_loop (Suc 0) rows d = (d', None) \<Longrightarrow>
     list_all row_parses (passing rows) \<and> d' = foldl append_row d (passing rows)"
proof (induction rows arbitrary: d)
  case Nil
  then show ?case by (simp add: passing_def)
next
  case (Cons row rows)
  show ?case
  proof (cases "length (row_fields row) < 5")
    case True
    with Cons.prems have "build_loop (Suc 0) rows d = (d', None)"
      by (simp add: process_row_skip build_loop_index [of "Suc 0"])
    from Cons.IH [OF this] True show ?thesis by (simp add: passing_def)
  next
    case False
    show ?thesis
    proof (cases "row_parses row")
      case True
      with False Cons.prems have "build_loop (Suc 0) rows (append_row d row) = (d', None)"
        by (simp add: process_row_ok build_loop_index [of "Suc 0"])
      from Cons.IH [OF this] True False show ?thesis by (simp add: passing_def)
    next
      case np: False
      from process_row_fail [OF False np, of d] Cons.prems show ?thesis
        by (cases "process_row d row") auto
    qed
  qed
qed

lemma build_from_loop: "build_from raw = build_loop (Suc 0) (tl raw) empty_store"
  by (simp add: build_from_def build_data_dict_def init_def build_loop_header split: prod.splits)

lemma build_success:
  assumes "build_data_dict (init raw) = (self, None)"
  shows "list_all row_parses (data_rows raw)
         \<and> data_dict self = foldl append_row empty_store (data_rows raw)"
proof -
  from assms have "build_loop (Suc 0) (tl raw) empty_store = (data_dict self, None)"
    by (auto simp add: build_data_dict_def init_def build_loop_header split: prod.splits)
  from build_loop_ok [OF this] show ?thesis
    by (simp add: data_rows_def passing_def)
qed

lemma foldl_append_row:
  "foldl append_row d rs =
     \<lparr>month = month d @ map (\<lambda>r. row_fields r ! 0) rs, date = date d @ map row_date rs,
      sample = sample d @ map row_sample rs, sample_type = sample_type d @ map row_type rs,
      Harris_result = Harris_result d @ map row_harris rs,
      Trump_result = Trump_result d @ map row_trump rs\<rparr>"
  by (induction rs arbitrary: d) (simp_all add: append_row_def)

lemma build_columns:
  assumes "build_data_dict (init raw) = (self, None)"
  shows "month (data_dict self) = map (\<lambda>r. row_fields r ! 0) (data_rows raw)"
    and "date (data_dict self) = map row_date (data_rows raw)"
    and "sample (data_dict self) = map row_sample (data_rows raw)"
    and "sample_type (data_dict self) = map row_type (data_rows raw)"
    and "Harris_result (data_dict self) = map row_harris (data_rows raw)"
    and "Trump_result (data_dict self) = map row_trump (data_rows raw)"
  using build_success [OF assms] by (simp_all add: foldl_append_row empty_store_def)

lemma build_row_parses:
  assumes "build_data_dict (init raw) = (self, None)" and "i < length (data_rows raw)"
  shows "row_parses (data_rows raw ! i)"
  using build_success [OF assms(1)] assms(2) by (simp add: list_all_length)

lemma scenario_build: "build_data_dict (init scenario) = (scenario_built, None)"
  by code_simp

text \<open>
  Claim C7. After a build that raised no exception, the six lists of the dictionary
  have the same length.
\<close>

theorem build_columns_equal_length:
  assumes "build_data_dict (init raw) = (self, None)"
  shows "length (month (data_dict self)) = length (date (data_dict self))
       \<and> length (date (data_dict self)) = length (sample (data_dict self))
       \<and> length (sample (data_dict self)) = length (sample_type (data_dict self))
       \<and> length (sample_type (data_dict self)) = length (Harris_result (data_dict self))
       \<and> length (Harris_result (data_dict self)) = length (Trump_result (data_dict self))"
  by (simp add: build_columns [OF assms])

theorem build_columns_equal_length_witness:
  "build_data_dict (init scenario) = (scenario_built, None)
   \<and> length (month (data_dict scenario_built)) = 3
   \<and> length (date (data_dict scenario_built)) = 3
   \<and> length (sample (data_dict scenario_built)) = 3
   \<and> length (sample_type (data_dict scenario_built)) = 3
   \<and> length (Harris_result (data_dict scenario_built)) = 3
   \<and> length (Trump_result (data_dict scenario_built)) = 3"
  using build_columns_equal_length [OF scenario_build] scenario_build
  by (simp add: scenario_built_def scenario_store_def)


subsection \<open>Skipped rows and aborted builds\<close>

text \<open>
  Claim C8. The first line is skipped whatever it contains. A later row with fewer
  than five fields leaves no trace: the build gives what it gives without the row.
  A later row with at least five fields in which an integer or a float does not parse
  raises, provided the rows before it raised nothing; the loop stops there, so the
  result is that of the failing row and the rows after it are not read. The exception
  is a \<^verbatim>\<open>ValueError\<close> whenever the sample descriptor has a token.
\<close>

theorem build_skips_short_rows_and_aborts_on_parse_failure:
  "build_from (header # rows) = build_from (header' # rows)
   \<and> (length (row_fields short) < 5 \<longrightarrow>
        build_from (header # pre @ short # rest) = build_from (header # pre @ rest))
   \<and> (\<not> length (row_fields bad) < 5 \<and> \<not> row_parses bad \<and> snd (build_from (header # pre)) = None \<longrightarrow>
        snd (build_from (header # pre @ bad # rest)) = Some (row_error bad)
        \<and> build_from (header # pre @ bad # rest) = build_from (header # pre @ [bad])
        \<and> (sample_tokens bad \<noteq> [] \<longrightarrow> row_error bad = ValueError))"
proof (intro conjI impI)
  show "build_from (header # rows) = build_from (header' # rows)"
    by (simp add: build_from_loop)
next
  assume "length (row_fields short) < 5"
  then show "build_from (header # pre @ short # rest) = build_from (header # pre @ rest)"
    by (simp add: build_from_loop build_loop_append [of pre] process_row_skip
        build_loop_index [of "Suc 0"] split: prod.splits option.splits)
next
  assume a: "\<not> length (row_fields bad) < 5 \<and> \<not> row_parses bad \<and> snd (build_from (header # pre)) = None"
  then obtain d1 where d1: "build_loop (Suc 0) pre empty_store = (d1, None)"
    by (cases "build_loop (Suc 0) pre empty_store") (simp add: build_from_loop)
  from a have "snd (process_row d1 bad) = Some (row_error bad)"
    by (simp add: process_row_fail)
  then obtain d2 where d2: "process_row d1 bad = (d2, Some (row_error bad))"
    by (cases "process_row d1 bad") simp
  from d1 d2 have r: "build_from (header # pre @ bad # rest) = (d2, Some (row_error bad))" for rest
    by (simp add: build_from_loop build_loop_append [of pre])
  from r [of rest] show "snd (build_from (header # pre @ bad # rest)) = Some (row_error bad)"
    by simp
  from r [of rest] r [of "[]"]
  show "build_from (header # pre @ bad # rest) = build_from (header # pre @ [bad])"
    by simp
next
  assume "sample_tokens bad \<noteq> []"
  then show "row_error bad = ValueError" by (simp add: row_error_def)
qed

theorem build_skips_short_rows_and_aborts_on_parse_failure_witness:
  "length (row_fields ''a,b,c,d'') < 5
   \<and> build_from (''h'' # [''Oct,1,1000 LV,55,45''] @ ''a,b,c,d'' # [''Oct,2,1000 RV,50,50''])
       = build_from (''h'' # [''Oct,1,1000 LV,55,45''] @ [''Oct,2,1000 RV,50,50''])
   \<and> \<not> length (row_fields ''Nov,x,1 LV,1,1'') < 5 \<and> \<not> row_parses ''Nov,x,1 LV,1,1''
   \<and> snd (build_from (''h'' # [''Oct,1,1000 LV,55,45''])) = None
   \<and> snd (build_from (''h'' # [''Oct,1,1000 LV,55,45''] @ ''Nov,x,1 LV,1,1'' # [''Oct,2,1000 RV,50,50'']))
       = Some (row_error ''Nov,x,1 LV,1,1'')
   \<and> sample_tokens ''Nov,x,1 LV,1,1'' \<noteq> [] \<and> row_error ''Nov,x,1 LV,1,1'' = ValueError"
proof -
  have s: "length (row_fields ''a,b,c,d'') < 5" by code_simp
  have b: "\<not> length (row_fields ''Nov,x,1 LV,1,1'') < 5" by code_simp
  have p: "\<not> row_parses ''Nov,x,1 LV,1,1''" by code_simp
  have t: "sample_tokens ''Nov,x,1 LV,1,1'' \<noteq> []" by code_simp
  have n: "snd (build_from (''h'' # [''Oct,1,1000 LV,55,45''])) = None" by code_simp
  show ?thesis
    using build_skips_short_rows_and_aborts_on_parse_failure
      [of "''h''" "[]" "''h''" "''a,b,c,d''" "[''Oct,1,1000 LV,55,45'']" "[''Oct,2,1000 RV,50,50'']"
        "''Nov,x,1 LV,1,1''"]
      s b p t n
    by blast
qed

subsection \<open>Sample sizes\<close>

lemma set_strip: "set (strip s) \<subseteq> set s"
proof
  fix x
  assume "x \<in> set (strip s)"
  then have "x \<in> set (dropWhile is_space (rev (dropWhile is_space s)))"
    by (simp add: strip_def)
  then have "x \<in> set (rev (dropWhile is_space s))"
    by (rule set_dropWhileD)
  then have "x \<in> set (dropWhile is_space s)"
    by simp
  then show "x \<in> set s"
    by (rule set_dropWhileD)
qed

lemma take_sign_neg: "take_sign t = (True, b) \<Longrightarrow> t = CHR ''-'' # b"
  by (cases t) (auto split: if_splits)

lemma py_int_nonneg:
  assumes "py_int s = Some n" and "CHR ''-'' \<notin> set s"
  shows "0 \<le> n"
proof (cases "take_sign (strip s)")
  case (Pair neg body)
  show ?thesis
  proof (cases neg)
    case True
    with Pair have "strip s = CHR ''-'' # body" by (simp add: take_sign_neg)
    then have "CHR ''-'' \<in> set (strip s)" by simp
    with set_strip [of s] assms(2) show ?thesis by blast
  next
    case False
    with Pair assms(1) show ?thesis
      by (auto simp add: py_int_def split: option.splits)
  qed
qed

text \<open>
  Claim C6, as amended. After a build that raised no exception, the sample size of a
  record is the integer that \<^verbatim>\<open>int\<close> reads from the first token of the sample
  descriptor of its row, sign included; it is not negative when that token has no
  minus sign.
\<close>

theorem stored_sample_is_descriptor_integer:
  assumes "build_data_dict (init raw) = (self, None)"
    and "i < length (sample (data_dict self))"
  shows "\<exists>tok rest. sample_tokens (data_rows raw ! i) = tok # rest
           \<and> py_int tok = Some (sample (data_dict self) ! i)
           \<and> (CHR ''-'' \<notin> set tok \<longrightarrow> 0 \<le> sample (data_dict self) ! i)"
proof -
  let ?row = "data_rows raw ! i"
  from assms have i: "i < length (data_rows raw)"
    by (simp add: build_columns(3))
  from build_row_parses [OF assms(1) i] obtain tok rest n where
    t: "sample_tokens ?row = tok # rest" and n: "py_int tok = Some n"
    unfolding row_parses_def by (cases "sample_tokens ?row") auto
  from assms(1) i t n have "sample (data_dict self) ! i = n"
    by (simp add: build_columns(3) row_sample_def)
  with t n py_int_nonneg [OF n] show ?thesis by auto
qed

theorem stored_sample_is_descriptor_integer_witness:
  "build_data_dict (init scenario) = (scenario_built, None)
   \<and> 0 < length (sample (data_dict scenario_built))
   \<and> (\<exists>tok rest. sample_tokens (data_rows scenario ! 0) = tok # rest
         \<and> py_int tok = Some (sample (data_dict scenario_built) ! 0)
         \<and> (CHR ''-'' \<notin> set tok \<longrightarrow> 0 \<le> sample (data_dict scenario_built) ! 0))"
proof -
  have l: "0 < length (sample (data_dict scenario_built))"
    by (simp add: scenario_built_def scenario_store_def)
  show ?thesis
    using scenario_build l stored_sample_is_descriptor_integer [OF scenario_build l] by simp
qed

text \<open>
  Claim C6 as stated fails: the descriptor \<^verbatim>\<open>-1000 LV\<close> is accepted by \<^verbatim>\<open>int\<close>, the
  build succeeds and the stored sample size is negative.
\<close>

theorem negative_sample_size_counterexample:
  "snd (build_data_dict (init [''h'', ''Oct,1,-1000 LV,55,45''])) = None
   \<and> sample (data_dict (fst (build_data_dict (init [''h'', ''Oct,1,-1000 LV,55,45'']))))
       = [- 1000]"
  by code_simp

subsection \<open>Stored result fractions\<close>






subsection \<open>Arithmetic on finite columns\<close>










subsection \<open>Polling history change\<close>



subsection \<open>Likely-voter average\<close>







subsection \<open>Highest polling candidate\<close>












lemma show_nat_one: "n < 10 \<Longrightarrow> length (show_nat n) = 1"
  by simp

declare show_nat.simps [simp del]




end
